theory Spec2Isabelle
  imports Main
begin

section \<open>Response envelopes and the cached-GET collaborator\<close>

text \<open>
  \<^verbatim>\<open>APIResponse<T>\<close> of the shared package, as the object literals of the clients build it:
  \<^verbatim>\<open>{ success, data?, error?: { code, message }, metadata: { source, timestamp, cached } }\<close>.
  A key that an object literal does not write is absent: \<open>None\<close>.
\<close>

record api_error =
  code :: string
  message :: string

record metadata =
  source :: string
  timestamp :: int
  cached :: bool

record 'd APIResponse =
  success :: bool
  data :: "'d option"
  error :: "api_error option"
  metadata :: metadata

text \<open>
  A promise that has settled: it was rejected (an exception crossing the \<^verbatim>\<open>await\<close>) or it
  resolved with a value.
\<close>

datatype 'a settled = Rejected | Resolved 'a

text \<open>
  A value of \<^verbatim>\<open>Record<string, string | number>\<close>. The number type \<open>'n\<close> is \<open>int\<close> where the
  code computes with the number (the sol of \<^verbatim>\<open>getMarsPhotos\<close>) and is left open where the
  code only passes it on (latitude, longitude and dimension of \<^verbatim>\<open>getEarthImagery\<close>).
\<close>

datatype 'n jsval = Str string | Num 'n

text \<open>
  The four arguments of \<^verbatim>\<open>this.cachedGet(path, options, cacheKey, ttl)\<close>. The options are
  \<^verbatim>\<open>{}\<close> (\<open>None\<close>) or \<^verbatim>\<open>{ params }\<close>.
\<close>

record 'n request =
  path :: string
  params :: "(string \<rightharpoonup> 'n jsval) option"
  cacheKey :: string
  ttl :: nat

text \<open>
  \<^verbatim>\<open>cachedGet\<close> belongs to the base class \<^verbatim>\<open>APIClient\<close> (\<^verbatim>\<open>utils/api-client\<close>), which owns
  the transport and the cache. It is a parameter of every operation: a function from the
  request to the way its promise settles during the invocation at hand (an operation
  never issues the same request twice).
\<close>

type_synonym ('n, 'd) cachedGet = "'n request \<Rightarrow> 'd APIResponse settled"

text \<open>The part of \<^verbatim>\<open>config\<close> that the clients read.\<close>

record config =
  apiKeys_nasa :: string
  ttl_apod :: nat
  ttl_mars :: nat
  ttl_neo :: nat
  ttl_earth :: nat
  ttl_spaceWeather :: nat

section \<open>SpaceWeatherClient\<close>

record 'd aurora =
  north :: "'d option"
  south :: "'d option"

record 'd summary =
  solarWind :: "'d option"
  geomagneticActivity :: "'d option"
  auroraForecast :: "'d aurora option"
  forecast3Day :: "'d option"
  summary_timestamp :: int

definition swpc_request :: "config \<Rightarrow> string \<Rightarrow> string \<Rightarrow> 'n request" where
  "swpc_request cfg p k =
     \<lparr>path = p, params = None, cacheKey = k, ttl = ttl_spaceWeather cfg\<rparr>"

text \<open>
  \<^verbatim>\<open>getAuroraForecast\<close>. \<^verbatim>\<open>Promise.all\<close> rejects as soon as one of its promises does;
  \<open>now\<close> is the reading of \<^verbatim>\<open>Date.now()\<close> in the branch taken.
\<close>

definition getAuroraForecast ::
  "config \<Rightarrow> ('n, 'd) cachedGet \<Rightarrow> int \<Rightarrow> 'd aurora APIResponse settled" where
  "getAuroraForecast cfg cachedGet now =
     (case cachedGet (swpc_request cfg
              ''/products/aurora-forecast-northern-hemisphere.json'' ''aurora-north'') of
        Rejected \<Rightarrow> Rejected
      | Resolved n \<Rightarrow>
     (case cachedGet (swpc_request cfg
              ''/products/aurora-forecast-southern-hemisphere.json'' ''aurora-south'') of
        Rejected \<Rightarrow> Rejected
      | Resolved s \<Rightarrow>
          if \<not> success n \<or> \<not> success s then
            Resolved \<lparr>success = False, data = None,
              error = Some \<lparr>code = ''AURORA_FORECAST_ERROR'',
                            message = ''Failed to fetch aurora forecast''\<rparr>,
              metadata = \<lparr>source = ''NOAA-SWPC'', timestamp = now, cached = False\<rparr>\<rparr>
          else
            Resolved \<lparr>success = True,
              data = Some \<lparr>north = data n, south = data s\<rparr>,
              error = None,
              metadata = \<lparr>source = ''NOAA-SWPC'', timestamp = now, cached = False\<rparr>\<rparr>))"

definition getSolarWind :: "config \<Rightarrow> ('n, 'd) cachedGet \<Rightarrow> 'd APIResponse settled" where
  "getSolarWind cfg cachedGet =
     cachedGet (swpc_request cfg ''/products/solar-wind/mag-1-day.json'' ''solar-wind'')"

definition getGeomagneticActivity ::
  "config \<Rightarrow> ('n, 'd) cachedGet \<Rightarrow> 'd APIResponse settled" where
  "getGeomagneticActivity cfg cachedGet =
     cachedGet (swpc_request cfg ''/products/noaa-planetary-k-index.json'' ''kp-index'')"

definition get3DayForecast :: "config \<Rightarrow> ('n, 'd) cachedGet \<Rightarrow> 'd APIResponse settled" where
  "get3DayForecast cfg cachedGet =
     cachedGet (swpc_request cfg ''/products/3-day-forecast.json'' ''forecast-3day'')"

text \<open>
  \<^verbatim>\<open>getSpaceWeatherSummary\<close>. \<open>now_aurora\<close> is the clock reading inside the nested
  \<^verbatim>\<open>getAuroraForecast\<close>; \<open>now1\<close> and \<open>now2\<close> are the readings of this method, in the order
  it makes them (the failure branch makes one, the success branch two: the data's
  timestamp, then the metadata's).
\<close>

definition getSpaceWeatherSummary ::
  "config \<Rightarrow> ('n, 'd) cachedGet \<Rightarrow> int \<Rightarrow> int \<Rightarrow> int \<Rightarrow> 'd summary APIResponse settled" where
  "getSpaceWeatherSummary cfg cachedGet now_aurora now1 now2 =
     (case getSolarWind cfg cachedGet of Rejected \<Rightarrow> Rejected | Resolved sw \<Rightarrow>
     (case getGeomagneticActivity cfg cachedGet of Rejected \<Rightarrow> Rejected | Resolved ga \<Rightarrow>
     (case getAuroraForecast cfg cachedGet now_aurora of Rejected \<Rightarrow> Rejected | Resolved au \<Rightarrow>
     (case get3DayForecast cfg cachedGet of Rejected \<Rightarrow> Rejected | Resolved fc \<Rightarrow>
        if \<not> success sw \<or> \<not> success ga \<or> \<not> success au \<or> \<not> success fc then
          Resolved \<lparr>success = False, data = None,
            error = Some \<lparr>code = ''SPACE_WEATHER_ERROR'',
                          message = ''Failed to fetch complete space weather data''\<rparr>,
            metadata = \<lparr>source = ''NOAA-SWPC'', timestamp = now1, cached = False\<rparr>\<rparr>
        else
          Resolved \<lparr>success = True,
            data = Some \<lparr>solarWind = data sw, geomagneticActivity = data ga,
                         auroraForecast = data au, forecast3Day = data fc,
                         summary_timestamp = now1\<rparr>,
            error = None,
            metadata = \<lparr>source = ''NOAA-SWPC'', timestamp = now2, cached = False\<rparr>\<rparr>))))"

section \<open>JavaScript strings and numbers\<close>

text \<open>
  \<^verbatim>\<open>x || d\<close> on an optional string: \<^verbatim>\<open>undefined\<close> and the empty string are falsy.
  \<open>truthy x\<close> is the string when it is truthy.
\<close>

fun truthy :: "string option \<Rightarrow> string option" where
  "truthy None = None"
| "truthy (Some s) = (if s = [] then None else Some s)"

definition or_else :: "string option \<Rightarrow> string \<Rightarrow> string" where
  "or_else x d = (case truthy x of None \<Rightarrow> d | Some s \<Rightarrow> s)"

text \<open>
  \<^verbatim>\<open>toUpperCase\<close> and \<^verbatim>\<open>toLowerCase\<close> on the ASCII letters; every other character is kept
  (strings are byte strings here).
\<close>

definition upper_char :: "char \<Rightarrow> char" where
  "upper_char c =
     (if 97 \<le> (of_char c :: nat) \<and> (of_char c :: nat) \<le> 122
      then char_of ((of_char c :: nat) - 32) else c)"

definition lower_char :: "char \<Rightarrow> char" where
  "lower_char c =
     (if 65 \<le> (of_char c :: nat) \<and> (of_char c :: nat) \<le> 90
      then char_of ((of_char c :: nat) + 32) else c)"

definition toUpperCase :: "string \<Rightarrow> string" where
  "toUpperCase s = map upper_char s"

definition toLowerCase :: "string \<Rightarrow> string" where
  "toLowerCase s = map lower_char s"

text \<open>
  The string that a template literal writes for an integral number: the decimal digits,
  with a minus sign below zero (JavaScript writes plain decimal up to \<open>10\<^sup>2\<^sup>1\<close>).
\<close>

definition digit :: "nat \<Rightarrow> char" where
  "digit d = char_of (48 + d)"

fun digits :: "nat \<Rightarrow> string" where
  "digits n = (if n < 10 then [digit n] else digits (n div 10) @ [digit (n mod 10)])"

declare digits.simps [simp del]

definition Number_toString :: "int \<Rightarrow> string" where
  "Number_toString n =
     (if n < 0 then CHR ''-'' # digits (nat (- n)) else digits (nat n))"

section \<open>NASAClient\<close>

text \<open>
  Each operation builds its request and hands it to \<^verbatim>\<open>cachedGet\<close>; the request is a
  definition of its own, so that parameters and cache keys can be read off.
\<close>

definition getAPOD_request :: "config \<Rightarrow> string option \<Rightarrow> 'n request" where
  "getAPOD_request cfg date =
     (let params0 = [''api_key'' \<mapsto> Str (apiKeys_nasa cfg)];
          params1 = (case truthy date of
                       Some d \<Rightarrow> params0(''date'' \<mapsto> Str d)
                     | None \<Rightarrow> params0)
      in \<lparr>path = ''/planetary/apod'', params = Some params1,
          cacheKey = ''apod:'' @ or_else date ''today'', ttl = ttl_apod cfg\<rparr>)"

definition getAPOD ::
  "config \<Rightarrow> ('n, 'd) cachedGet \<Rightarrow> string option \<Rightarrow> 'd APIResponse settled" where
  "getAPOD cfg cachedGet date = cachedGet (getAPOD_request cfg date)"

text \<open>
  \<^verbatim>\<open>getMarsPhotos\<close>: the parameters test \<^verbatim>\<open>sol !== undefined\<close>, the cache key tests the
  truthiness of \<^verbatim>\<open>sol\<close> (\<^verbatim>\<open>sol || earthDate || 'default'\<close>), and \<open>0\<close> is falsy.
\<close>

definition getMarsPhotos_params ::
  "config \<Rightarrow> int option \<Rightarrow> string option \<Rightarrow> string option \<Rightarrow> (string \<rightharpoonup> int jsval)" where
  "getMarsPhotos_params cfg sol earthDate camera =
     (let params0 = [''api_key'' \<mapsto> Str (apiKeys_nasa cfg)];
          params1 = (case sol of
                       Some n \<Rightarrow> params0(''sol'' \<mapsto> Num n)
                     | None \<Rightarrow>
                        (case truthy earthDate of
                           Some e \<Rightarrow> params0(''earth_date'' \<mapsto> Str e)
                         | None \<Rightarrow> params0(''sol'' \<mapsto> Num 1000)))
      in case truthy camera of
           Some c \<Rightarrow> params1(''camera'' \<mapsto> Str c)
         | None \<Rightarrow> params1)"

definition getMarsPhotos_cacheKey ::
  "string \<Rightarrow> int option \<Rightarrow> string option \<Rightarrow> string option \<Rightarrow> string" where
  "getMarsPhotos_cacheKey rover sol earthDate camera =
     ''mars:'' @ rover @ '':'' @
       (case sol of
          Some n \<Rightarrow> if n \<noteq> 0 then Number_toString n else or_else earthDate ''default''
        | None \<Rightarrow> or_else earthDate ''default'')
       @ '':'' @ or_else camera ''all''"

definition getMarsPhotos_request ::
  "config \<Rightarrow> string \<Rightarrow> int option \<Rightarrow> string option \<Rightarrow> string option \<Rightarrow> int request" where
  "getMarsPhotos_request cfg rover sol earthDate camera =
     \<lparr>path = ''/mars-photos/api/v1/rovers/'' @ toLowerCase rover @ ''/photos'',
      params = Some (getMarsPhotos_params cfg sol earthDate camera),
      cacheKey = getMarsPhotos_cacheKey rover sol earthDate camera,
      ttl = ttl_mars cfg\<rparr>"

definition getMarsPhotos ::
  "config \<Rightarrow> (int, 'd) cachedGet \<Rightarrow> string \<Rightarrow> int option \<Rightarrow> string option \<Rightarrow> string option
     \<Rightarrow> 'd APIResponse settled" where
  "getMarsPhotos cfg cachedGet rover sol earthDate camera =
     cachedGet (getMarsPhotos_request cfg rover sol earthDate camera)"

definition getNearEarthObjects_request :: "config \<Rightarrow> string \<Rightarrow> string \<Rightarrow> 'n request" where
  "getNearEarthObjects_request cfg startDate endDate =
     \<lparr>path = ''/neo/rest/v1/feed'',
      params = Some [''api_key'' \<mapsto> Str (apiKeys_nasa cfg),
                     ''start_date'' \<mapsto> Str startDate, ''end_date'' \<mapsto> Str endDate],
      cacheKey = ''neo:'' @ startDate @ '':'' @ endDate,
      ttl = ttl_neo cfg\<rparr>"

definition getNearEarthObjects ::
  "config \<Rightarrow> ('n, 'd) cachedGet \<Rightarrow> string \<Rightarrow> string \<Rightarrow> 'd APIResponse settled" where
  "getNearEarthObjects cfg cachedGet startDate endDate =
     cachedGet (getNearEarthObjects_request cfg startDate endDate)"

text \<open>
  \<^verbatim>\<open>getEarthImagery\<close> only passes its numbers on and writes two of them into the key, so
  their type is open and \<open>numStr\<close> is the string a template literal writes for them.
  \<open>dim\<close> is the argument after the default of the signature (\<^verbatim>\<open>dim: number = 0.025\<close>)
  has been filled in.
\<close>

definition getEarthImagery_cacheKey ::
  "('n \<Rightarrow> string) \<Rightarrow> 'n \<Rightarrow> 'n \<Rightarrow> string option \<Rightarrow> 'n \<Rightarrow> string" where
  "getEarthImagery_cacheKey numStr lat lon date dim =
     ''earth-imagery:'' @ numStr lat @ '':'' @ numStr lon @ '':'' @ or_else date ''latest''"

definition getEarthImagery_request ::
  "config \<Rightarrow> ('n \<Rightarrow> string) \<Rightarrow> 'n \<Rightarrow> 'n \<Rightarrow> string option \<Rightarrow> 'n \<Rightarrow> 'n request" where
  "getEarthImagery_request cfg numStr lat lon date dim =
     (let params0 = [''api_key'' \<mapsto> Str (apiKeys_nasa cfg), ''lat'' \<mapsto> Num lat,
                     ''lon'' \<mapsto> Num lon, ''dim'' \<mapsto> Num dim];
          params1 = (case truthy date of
                       Some d \<Rightarrow> params0(''date'' \<mapsto> Str d)
                     | None \<Rightarrow> params0)
      in \<lparr>path = ''/planetary/earth/imagery'', params = Some params1,
          cacheKey = getEarthImagery_cacheKey numStr lat lon date dim,
          ttl = ttl_earth cfg\<rparr>)"

definition getEarthImagery ::
  "config \<Rightarrow> ('n, 'd) cachedGet \<Rightarrow> ('n \<Rightarrow> string) \<Rightarrow> 'n \<Rightarrow> 'n \<Rightarrow> string option \<Rightarrow> 'n
     \<Rightarrow> 'd APIResponse settled" where
  "getEarthImagery cfg cachedGet numStr lat lon date dim =
     cachedGet (getEarthImagery_request cfg numStr lat lon date dim)"

text \<open>
  \<^verbatim>\<open>getDONKIEvents\<close>. \<^verbatim>\<open>typeMap\<close> is an object literal with eight own properties; the
  properties it inherits all have a lower-case letter in their names, which no
  upper-cased string has, so the lookup is a lookup among the eight.
\<close>

definition typeMap :: "(string \<times> string) list" where
  "typeMap = [(''FLR'', ''FLR''), (''SEP'', ''SEP''), (''CME'', ''CME''), (''IPS'', ''IPS''),
              (''MPC'', ''MPC''), (''GST'', ''GST''), (''RBE'', ''RBE''), (''HSS'', ''HSS'')]"

definition eventType :: "string \<Rightarrow> string" where
  "eventType type = or_else (map_of typeMap (toUpperCase type)) ''FLR''"

definition getDONKIEvents_request :: "config \<Rightarrow> string \<Rightarrow> string \<Rightarrow> string \<Rightarrow> 'n request" where
  "getDONKIEvents_request cfg type startDate endDate =
     \<lparr>path = ''/DONKI/'' @ eventType type,
      params = Some [''api_key'' \<mapsto> Str (apiKeys_nasa cfg),
                     ''startDate'' \<mapsto> Str startDate, ''endDate'' \<mapsto> Str endDate],
      cacheKey = ''donki:'' @ eventType type @ '':'' @ startDate @ '':'' @ endDate,
      ttl = ttl_spaceWeather cfg\<rparr>"

definition getDONKIEvents ::
  "config \<Rightarrow> ('n, 'd) cachedGet \<Rightarrow> string \<Rightarrow> string \<Rightarrow> string \<Rightarrow> 'd APIResponse settled" where
  "getDONKIEvents cfg cachedGet type startDate endDate =
     cachedGet (getDONKIEvents_request cfg type startDate endDate)"

text \<open>
  The DONKI operations of \<^verbatim>\<open>SpaceWeatherClient\<close> go through its own \<^verbatim>\<open>NASAClient\<close>, whose
  \<^verbatim>\<open>cachedGet\<close> is \<open>nasaGet\<close>.
\<close>

definition getSolarFlares ::
  "config \<Rightarrow> ('n, 'd) cachedGet \<Rightarrow> string \<Rightarrow> string \<Rightarrow> 'd APIResponse settled" where
  "getSolarFlares cfg nasaGet startDate endDate =
     getDONKIEvents cfg nasaGet ''FLR'' startDate endDate"

definition getCMEs ::
  "config \<Rightarrow> ('n, 'd) cachedGet \<Rightarrow> string \<Rightarrow> string \<Rightarrow> 'd APIResponse settled" where
  "getCMEs cfg nasaGet startDate endDate =
     getDONKIEvents cfg nasaGet ''CME'' startDate endDate"

definition getGeomagneticStorms ::
  "config \<Rightarrow> ('n, 'd) cachedGet \<Rightarrow> string \<Rightarrow> string \<Rightarrow> 'd APIResponse settled" where
  "getGeomagneticStorms cfg nasaGet startDate endDate =
     getDONKIEvents cfg nasaGet ''GST'' startDate endDate"

definition getSEPEvents ::
  "config \<Rightarrow> ('n, 'd) cachedGet \<Rightarrow> string \<Rightarrow> string \<Rightarrow> 'd APIResponse settled" where
  "getSEPEvents cfg nasaGet startDate endDate =
     getDONKIEvents cfg nasaGet ''SEP'' startDate endDate"

section \<open>The ISS page\<close>

text \<open>
  The four \<^verbatim>\<open>useState\<close> cells of \<^verbatim>\<open>ISSPage\<close> (\<open>errorState\<close> is the cell \<^verbatim>\<open>error\<close>). The
  position payload is whatever the backend sent: its type \<open>'p\<close> is open.
\<close>

record Astronaut =
  name :: string
  craft :: string

record 'p page =
  position :: "'p option"
  astronauts :: "Astronaut list"
  loading :: bool
  errorState :: "string option"

definition initial :: "'p page" where
  "initial = \<lparr>position = None, astronauts = [], loading = True, errorState = None\<rparr>"

text \<open>The calls of the state setters.\<close>

datatype 'p action =
    SetPosition "'p option"
  | SetAstronauts "Astronaut list"
  | SetLoading bool
  | SetError "string option"

fun setState :: "'p page \<Rightarrow> 'p action \<Rightarrow> 'p page" where
  "setState st (SetPosition p) = st\<lparr>position := p\<rparr>"
| "setState st (SetAstronauts as) = st\<lparr>astronauts := as\<rparr>"
| "setState st (SetLoading b) = st\<lparr>loading := b\<rparr>"
| "setState st (SetError e) = st\<lparr>errorState := e\<rparr>"

text \<open>
  What one \<^verbatim>\<open>await fetch(url)\<close> followed by \<^verbatim>\<open>await res.json()\<close> gives, as far as the code
  looks at it:
  \<^item> \<open>Throws\<close>: the fetch or the JSON parsing rejects;
  \<^item> \<open>Null\<close>: the body parses to \<^verbatim>\<open>null\<close>, on which reading \<^verbatim>\<open>.success\<close> raises;
  \<^item> \<open>Json s d\<close>: any other parsed value; \<open>s\<close> is the truthiness of its \<^verbatim>\<open>.success\<close> and \<open>d\<close>
    what the code reads from it when \<open>s\<close> holds. For the position \<open>d\<close> is \<^verbatim>\<open>posData.data\<close>
    (\<open>None\<close> when there is none). For the astronauts \<open>d\<close> is the list
    \<^verbatim>\<open>astroData.data.people\<close>, and \<open>None\<close> when \<^verbatim>\<open>astroData.data.people.filter(...)\<close> raises
    (no \<^verbatim>\<open>data\<close>, no \<^verbatim>\<open>people\<close> array, or an entry without properties).
\<close>

datatype 'd reply = Throws | Null | Json bool 'd

definition catch_block :: "'p action list" where
  "catch_block = [SetError (Some ''Failed to load ISS data''), SetLoading False]"

text \<open>
  \<^verbatim>\<open>fetchData\<close>: the setter calls of one invocation, in order. A raise inside the
  \<^verbatim>\<open>try\<close> block skips the rest of the block and runs the \<^verbatim>\<open>catch\<close> block.
\<close>

definition fetchData ::
  "'p option reply \<Rightarrow> Astronaut list option reply \<Rightarrow> 'p action list" where
  "fetchData posData astroData =
     (case posData of
        Throws \<Rightarrow> catch_block
      | Null \<Rightarrow> catch_block
      | Json pos_ok pos \<Rightarrow>
          (if pos_ok then [SetPosition pos] else []) @
          (case astroData of
             Throws \<Rightarrow> catch_block
           | Null \<Rightarrow> catch_block
           | Json astro_ok people \<Rightarrow>
               if astro_ok then
                 (case people of
                    None \<Rightarrow> catch_block
                  | Some ps \<Rightarrow>
                      [SetAstronauts (filter (\<lambda>p. craft p = ''ISS'') ps), SetLoading False])
               else [SetLoading False]))"

text \<open>
  One poll cycle on the state, and the cycles of the effect run one after the other:
  the call on mount, then one per tick of the 5 second interval.
\<close>

definition poll ::
  "'p page \<Rightarrow> 'p option reply \<times> Astronaut list option reply \<Rightarrow> 'p page" where
  "poll st r = foldl setState st (fetchData (fst r) (snd r))"

definition polls ::
  "'p page \<Rightarrow> ('p option reply \<times> Astronaut list option reply) list \<Rightarrow> 'p page" where
  "polls st rs = foldl poll st rs"

section \<open>Predicates of the properties, and sample inputs\<close>

text \<open>The two hemisphere fetches of \<^verbatim>\<open>getAuroraForecast\<close>.\<close>

abbreviation aurora_north :: "config \<Rightarrow> ('n, 'd) cachedGet \<Rightarrow> 'd APIResponse settled" where
  "aurora_north cfg cachedGet \<equiv>
     cachedGet (swpc_request cfg
       ''/products/aurora-forecast-northern-hemisphere.json'' ''aurora-north'')"

abbreviation aurora_south :: "config \<Rightarrow> ('n, 'd) cachedGet \<Rightarrow> 'd APIResponse settled" where
  "aurora_south cfg cachedGet \<equiv>
     cachedGet (swpc_request cfg
       ''/products/aurora-forecast-southern-hemisphere.json'' ''aurora-south'')"

text \<open>
  The envelope invariant: exactly one of \<^verbatim>\<open>data\<close> and \<^verbatim>\<open>error\<close> is present, \<^verbatim>\<open>data\<close> on
  success and \<^verbatim>\<open>error\<close> on failure.
\<close>

definition envelope_ok :: "'d APIResponse \<Rightarrow> bool" where
  "envelope_ok r =
     (if success r then data r \<noteq> None \<and> error r = None
      else data r = None \<and> error r \<noteq> None)"

text \<open>
  Sample inputs: a configuration, and a collaborator that serves every request from its
  cache, with a failure envelope for the one request whose cache key is \<open>bad\<close>.
\<close>

definition demo_config :: config where
  "demo_config = \<lparr>apiKeys_nasa = ''DEMO_KEY'', ttl_apod = 3600, ttl_mars = 3600,
     ttl_neo = 3600, ttl_earth = 86400, ttl_spaceWeather = 300\<rparr>"

definition served :: "bool \<Rightarrow> nat APIResponse" where
  "served ok =
     \<lparr>success = ok, data = (if ok then Some 7 else None),
      error = (if ok then None else Some \<lparr>code = ''HTTP_ERROR'', message = ''503''\<rparr>),
      metadata = \<lparr>source = ''NOAA-SWPC'', timestamp = 0, cached = True\<rparr>\<rparr>"

definition demo_get :: "string \<Rightarrow> (int, nat) cachedGet" where
  "demo_get bad req = Resolved (served (cacheKey req \<noteq> bad))"


text \<open>A crew list as the astronauts endpoint sends it.\<close>

definition iss_crew :: "Astronaut list" where
  "iss_crew = [\<lparr>name = ''A'', craft = ''ISS''\<rparr>, \<lparr>name = ''B'', craft = ''Tiangong''\<rparr>]"

section \<open>Auxiliary facts\<close>














section \<open>The aggregate operations of SpaceWeatherClient\<close>

text \<open>
  Claim C2. \<^verbatim>\<open>getAuroraForecast\<close> returns a success envelope exactly when both hemisphere
  fetches return success envelopes. When both fetches return envelopes, the result is an
  envelope: on success it carries both hemisphere results, and when either fetch failed
  it carries no data and the error code \<^verbatim>\<open>AURORA_FORECAST_ERROR\<close>.
\<close>

theorem getAuroraForecast_all_or_nothing:
  fixes cachedGet :: "('n, 'd) cachedGet"
  shows "((\<exists>r. getAuroraForecast cfg cachedGet now = Resolved r \<and> success r) \<longleftrightarrow>
          (\<exists>n s. aurora_north cfg cachedGet = Resolved n \<and>
                 aurora_south cfg cachedGet = Resolved s \<and> success n \<and> success s))
       \<and> (\<forall>n s. aurora_north cfg cachedGet = Resolved n \<and>
                 aurora_south cfg cachedGet = Resolved s \<longrightarrow>
            (\<exists>r. getAuroraForecast cfg cachedGet now = Resolved r \<and>
               (success r \<longleftrightarrow> success n \<and> success s) \<and>
               (success r \<longrightarrow> data r = Some \<lparr>north = data n, south = data s\<rparr>) \<and>
               (\<not> success r \<longrightarrow> data r = None \<and>
                  error r = Some \<lparr>code = ''AURORA_FORECAST_ERROR'',
                                   message = ''Failed to fetch aurora forecast''\<rparr>)))"
  by (auto simp: getAuroraForecast_def split: settled.splits)

text \<open>
  The southern fetch alone fails: the aggregate failure. No fetch fails: a success.
\<close>

theorem getAuroraForecast_all_or_nothing_witness:
  "getAuroraForecast demo_config (demo_get ''aurora-south'') 5 =
     Resolved \<lparr>success = False, data = None,
       error = Some \<lparr>code = ''AURORA_FORECAST_ERROR'',
                     message = ''Failed to fetch aurora forecast''\<rparr>,
       metadata = \<lparr>source = ''NOAA-SWPC'', timestamp = 5, cached = False\<rparr>\<rparr>
   \<and> (\<exists>r. getAuroraForecast demo_config (demo_get ''kp-index'') 5 = Resolved r \<and> success r)"
proof -
  have n: "aurora_north demo_config (demo_get ''aurora-south'') = Resolved (served True)"
    by (simp add: demo_get_def swpc_request_def)
  have s: "aurora_south demo_config (demo_get ''aurora-south'') = Resolved (served False)"
    by (simp add: demo_get_def swpc_request_def)
  have n': "aurora_north demo_config (demo_get ''kp-index'') = Resolved (served True)"
    by (simp add: demo_get_def swpc_request_def)
  have s': "aurora_south demo_config (demo_get ''kp-index'') = Resolved (served True)"
    by (simp add: demo_get_def swpc_request_def)
  from getAuroraForecast_all_or_nothing [of demo_config "demo_get ''aurora-south''" 5] n s
  have "\<exists>r. getAuroraForecast demo_config (demo_get ''aurora-south'') 5 = Resolved r \<and>
          \<not> success r \<and> data r = None \<and>
          error r = Some \<lparr>code = ''AURORA_FORECAST_ERROR'',
                           message = ''Failed to fetch aurora forecast''\<rparr>"
    by (auto simp: served_def)
  then have 1: "getAuroraForecast demo_config (demo_get ''aurora-south'') 5 =
     Resolved \<lparr>success = False, data = None,
       error = Some \<lparr>code = ''AURORA_FORECAST_ERROR'',
                     message = ''Failed to fetch aurora forecast''\<rparr>,
       metadata = \<lparr>source = ''NOAA-SWPC'', timestamp = 5, cached = False\<rparr>\<rparr>"
    by (auto simp: getAuroraForecast_def split: settled.splits if_splits)
  from getAuroraForecast_all_or_nothing [of demo_config "demo_get ''kp-index''" 5] n' s'
  have 2: "\<exists>r. getAuroraForecast demo_config (demo_get ''kp-index'') 5 = Resolved r \<and> success r"
    by (auto simp: served_def)
  from 1 2 show ?thesis by simp
qed

text \<open>
  Claim C1. \<^verbatim>\<open>getSpaceWeatherSummary\<close> returns a success envelope exactly when its four
  constituent fetches (solar wind, geomagnetic activity, aurora forecast, 3-day
  forecast) return success envelopes. When the four return envelopes and one of them is
  a failure, the result is one fixed failure envelope: code \<^verbatim>\<open>SPACE_WEATHER_ERROR\<close>, no
  data, and nothing in it depends on which fetch failed.
\<close>

theorem getSpaceWeatherSummary_all_or_nothing:
  fixes cachedGet :: "('n, 'd) cachedGet"
  shows "((\<exists>r. getSpaceWeatherSummary cfg cachedGet now_aurora now1 now2 = Resolved r \<and> success r)
            \<longleftrightarrow>
          (\<exists>sw ga au fc.
             getSolarWind cfg cachedGet = Resolved sw \<and>
             getGeomagneticActivity cfg cachedGet = Resolved ga \<and>
             getAuroraForecast cfg cachedGet now_aurora = Resolved au \<and>
             get3DayForecast cfg cachedGet = Resolved fc \<and>
             success sw \<and> success ga \<and> success au \<and> success fc))
       \<and> (\<forall>sw ga au fc.
             getSolarWind cfg cachedGet = Resolved sw \<and>
             getGeomagneticActivity cfg cachedGet = Resolved ga \<and>
             getAuroraForecast cfg cachedGet now_aurora = Resolved au \<and>
             get3DayForecast cfg cachedGet = Resolved fc \<and>
             \<not> (success sw \<and> success ga \<and> success au \<and> success fc) \<longrightarrow>
             getSpaceWeatherSummary cfg cachedGet now_aurora now1 now2 =
               Resolved \<lparr>success = False, data = None,
                 error = Some \<lparr>code = ''SPACE_WEATHER_ERROR'',
                               message = ''Failed to fetch complete space weather data''\<rparr>,
                 metadata = \<lparr>source = ''NOAA-SWPC'', timestamp = now1, cached = False\<rparr>\<rparr>)"
  by (auto simp: getSpaceWeatherSummary_def split: settled.splits)

text \<open>
  The Kp-index fetch alone fails.
\<close>

theorem getSpaceWeatherSummary_all_or_nothing_witness:
  "getSpaceWeatherSummary demo_config (demo_get ''kp-index'') 1 2 3 =
     Resolved \<lparr>success = False, data = None,
       error = Some \<lparr>code = ''SPACE_WEATHER_ERROR'',
                     message = ''Failed to fetch complete space weather data''\<rparr>,
       metadata = \<lparr>source = ''NOAA-SWPC'', timestamp = 2, cached = False\<rparr>\<rparr>"
proof -
  have sw: "getSolarWind demo_config (demo_get ''kp-index'') = Resolved (served True)"
    by (simp add: getSolarWind_def demo_get_def swpc_request_def)
  have ga: "getGeomagneticActivity demo_config (demo_get ''kp-index'') = Resolved (served False)"
    by (simp add: getGeomagneticActivity_def demo_get_def swpc_request_def)
  have fc: "get3DayForecast demo_config (demo_get ''kp-index'') = Resolved (served True)"
    by (simp add: get3DayForecast_def demo_get_def swpc_request_def)
  obtain au where au: "getAuroraForecast demo_config (demo_get ''kp-index'') 1 = Resolved au"
    by (simp add: getAuroraForecast_def demo_get_def swpc_request_def served_def)
  have ns: "\<not> success (served False)" by (simp add: served_def)
  from getSpaceWeatherSummary_all_or_nothing [of demo_config "demo_get ''kp-index''" 1 2 3]
    sw ga fc au ns
  show ?thesis by simp
qed


text \<open>
  Claim C6. Every envelope that the clients construct (the aggregate operations are the
  only ones that construct envelopes; the others return the collaborator's) has exactly
  one of \<^verbatim>\<open>data\<close> and \<^verbatim>\<open>error\<close>: \<^verbatim>\<open>data\<close> when \<^verbatim>\<open>success\<close> is true, \<^verbatim>\<open>error\<close> (a code and
  a message) when it is false. The metadata \<^verbatim>\<open>{ source, timestamp, cached }\<close> is there in
  both by the type of the record.
\<close>

theorem constructed_envelopes_tagged:
  fixes cachedGet :: "('n, 'd) cachedGet"
  shows "(\<forall>r. getAuroraForecast cfg cachedGet now = Resolved r \<longrightarrow> envelope_ok r)
       \<and> (\<forall>r. getSpaceWeatherSummary cfg cachedGet now_aurora now1 now2 = Resolved r \<longrightarrow>
             envelope_ok r)"
  by (auto simp: getAuroraForecast_def getSpaceWeatherSummary_def envelope_ok_def
           split: settled.splits if_splits)

text \<open>
  A failure envelope of \<^verbatim>\<open>getAuroraForecast\<close> and a success envelope of
  \<^verbatim>\<open>getSpaceWeatherSummary\<close>.
\<close>

theorem constructed_envelopes_tagged_witness:
  "(\<exists>r. getAuroraForecast demo_config (demo_get ''aurora-north'') 5 = Resolved r \<and>
        envelope_ok r \<and> \<not> success r)
   \<and> (\<exists>r. getSpaceWeatherSummary demo_config (demo_get []) 1 2 3 = Resolved r \<and>
        envelope_ok r \<and> success r)"
proof -
  obtain r where r: "getAuroraForecast demo_config (demo_get ''aurora-north'') 5 = Resolved r"
    and nr: "\<not> success r"
    by (simp add: getAuroraForecast_def demo_get_def swpc_request_def served_def)
  obtain q where q: "getSpaceWeatherSummary demo_config (demo_get []) 1 2 3 = Resolved q"
    and sq: "success q"
    by (simp add: getSpaceWeatherSummary_def getSolarWind_def getGeomagneticActivity_def
          get3DayForecast_def getAuroraForecast_def demo_get_def swpc_request_def served_def)
  from constructed_envelopes_tagged [of demo_config "demo_get ''aurora-north''" 5] r
  have "envelope_ok r" by simp
  moreover
  from constructed_envelopes_tagged [of demo_config "demo_get []" 1 1 2 3] q
  have "envelope_ok q" by simp
  ultimately show ?thesis using r nr q sq by simp
qed

text \<open>
  Claim C9. The envelopes of \<^verbatim>\<open>getAuroraForecast\<close> and \<^verbatim>\<open>getSpaceWeatherSummary\<close>, success
  or failure, have \<^verbatim>\<open>cached: false\<close> and \<^verbatim>\<open>source: 'NOAA-SWPC'\<close> in their metadata, whatever
  the sub-fetches returned and whether or not they were served from the cache.
\<close>

theorem aggregate_metadata_fixed:
  fixes cachedGet :: "('n, 'd) cachedGet"
  shows "(\<forall>r. getAuroraForecast cfg cachedGet now = Resolved r \<longrightarrow>
             cached (metadata r) = False \<and> source (metadata r) = ''NOAA-SWPC'')
       \<and> (\<forall>r. getSpaceWeatherSummary cfg cachedGet now_aurora now1 now2 = Resolved r \<longrightarrow>
             cached (metadata r) = False \<and> source (metadata r) = ''NOAA-SWPC'')"
  by (auto simp: getAuroraForecast_def getSpaceWeatherSummary_def
           split: settled.splits if_splits)

text \<open>
  Every sub-fetch is served from the cache (\<^verbatim>\<open>cached: true\<close>), the aggregates say
  \<^verbatim>\<open>cached: false\<close>.
\<close>

theorem aggregate_metadata_fixed_witness:
  "(\<forall>req. \<exists>e. demo_get [] req = Resolved e \<and> cached (metadata e))
   \<and> (\<exists>r. getAuroraForecast demo_config (demo_get []) 5 = Resolved r \<and>
        \<not> cached (metadata r) \<and> source (metadata r) = ''NOAA-SWPC'')
   \<and> (\<exists>r. getSpaceWeatherSummary demo_config (demo_get []) 1 2 3 = Resolved r \<and>
        \<not> cached (metadata r) \<and> source (metadata r) = ''NOAA-SWPC'')"
proof -
  have c: "\<forall>req. \<exists>e. demo_get [] req = Resolved e \<and> cached (metadata e)"
    by (simp add: demo_get_def served_def)
  obtain r where r: "getAuroraForecast demo_config (demo_get []) 5 = Resolved r"
    by (simp add: getAuroraForecast_def demo_get_def swpc_request_def served_def)
  obtain q where q: "getSpaceWeatherSummary demo_config (demo_get []) 1 2 3 = Resolved q"
    by (simp add: getSpaceWeatherSummary_def getSolarWind_def getGeomagneticActivity_def
          get3DayForecast_def getAuroraForecast_def demo_get_def swpc_request_def served_def)
  from aggregate_metadata_fixed [of demo_config "demo_get []" 5] r
  have "\<not> cached (metadata r) \<and> source (metadata r) = ''NOAA-SWPC''" by simp
  moreover
  from aggregate_metadata_fixed [of demo_config "demo_get []" 1 1 2 3] q
  have "\<not> cached (metadata q) \<and> source (metadata q) = ''NOAA-SWPC''" by simp
  ultimately show ?thesis using c r q by simp
qed

section \<open>NASAClient: parameters, event types and cache keys\<close>


text \<open>
  Claim C5. When the upper-cased type is one of the eight event types, \<^verbatim>\<open>getDONKIEvents\<close>
  requests that upper-cased type; for every other string it requests \<^verbatim>\<open>FLR\<close>. The event
  type is the last segment of the path of the request handed to \<^verbatim>\<open>cachedGet\<close>.
\<close>

theorem getDONKIEvents_type_fallback:
  "(toUpperCase type \<in> {''FLR'', ''SEP'', ''CME'', ''IPS'', ''MPC'', ''GST'', ''RBE'', ''HSS''}
      \<longrightarrow> eventType type = toUpperCase type)
   \<and> (toUpperCase type \<notin> {''FLR'', ''SEP'', ''CME'', ''IPS'', ''MPC'', ''GST'', ''RBE'', ''HSS''}
      \<longrightarrow> eventType type = ''FLR'')
   \<and> path (getDONKIEvents_request cfg type startDate endDate) = ''/DONKI/'' @ eventType type
   \<and> getDONKIEvents cfg cachedGet type startDate endDate =
       cachedGet (getDONKIEvents_request cfg type startDate endDate)"
  by (auto simp: eventType_def typeMap_def or_else_def getDONKIEvents_request_def
        getDONKIEvents_def)

text \<open>
  \<^verbatim>\<open>cme\<close> is matched without regard to case, \<^verbatim>\<open>Flare\<close> falls back.
\<close>

theorem getDONKIEvents_type_fallback_witness:
  "toUpperCase ''cme'' \<in> {''FLR'', ''SEP'', ''CME'', ''IPS'', ''MPC'', ''GST'', ''RBE'', ''HSS''}
   \<and> eventType ''cme'' = ''CME''
   \<and> toUpperCase ''Flare'' \<notin> {''FLR'', ''SEP'', ''CME'', ''IPS'', ''MPC'', ''GST'', ''RBE'', ''HSS''}
   \<and> eventType ''Flare'' = ''FLR''"
proof -
  have u: "toUpperCase ''cme'' = ''CME''" by code_simp
  have v: "toUpperCase ''Flare'' = ''FLARE''" by code_simp
  have m: "toUpperCase ''cme'' \<in>
      {''FLR'', ''SEP'', ''CME'', ''IPS'', ''MPC'', ''GST'', ''RBE'', ''HSS''}"
    by (simp add: u)
  have n: "toUpperCase ''Flare'' \<notin>
      {''FLR'', ''SEP'', ''CME'', ''IPS'', ''MPC'', ''GST'', ''RBE'', ''HSS''}"
    by (simp add: v)
  from getDONKIEvents_type_fallback [of "''cme''" demo_config "''2024-01-01''" "''2024-01-07''"
      "demo_get []"] m
  have "eventType ''cme'' = toUpperCase ''cme''" by blast
  with u have 1: "eventType ''cme'' = ''CME''" by simp
  from getDONKIEvents_type_fallback [of "''Flare''" demo_config "''2024-01-01''" "''2024-01-07''"
      "demo_get []"] n
  have 2: "eventType ''Flare'' = ''FLR''" by blast
  from m n 1 2 show ?thesis by blast
qed








text \<open>
  Two collisions beside the ones that the defaults make. The key of \<^verbatim>\<open>getEarthImagery\<close>
  does not mention \<^verbatim>\<open>dim\<close>, which the request sends; and the key of \<^verbatim>\<open>getMarsPhotos\<close> reads
  a sol of \<open>0\<close> as absent, which the parameters do not.
\<close>

lemma getEarthImagery_cacheKey_without_dim:
  "getEarthImagery_cacheKey numStr lat lon date dim =
   getEarthImagery_cacheKey numStr lat lon date dim'"
  by (simp add: getEarthImagery_cacheKey_def)

lemma getMarsPhotos_cacheKey_sol_zero:
  "getMarsPhotos_cacheKey rover (Some 0) earthDate camera =
   getMarsPhotos_cacheKey rover None earthDate camera"
  by (simp add: getMarsPhotos_cacheKey_def)





section \<open>No operation rejects\<close>

text \<open>
  Claim C7. When the \<^verbatim>\<open>cachedGet\<close> of the two clients never rejects, no operation of
  \<^verbatim>\<open>NASAClient\<close> or \<^verbatim>\<open>SpaceWeatherClient\<close> rejects: each resolves with an envelope, and a
  failure is an envelope whose \<^verbatim>\<open>success\<close> is false.
\<close>

theorem clients_never_reject:
  fixes cachedGet :: "('n, 'd) cachedGet" and nasaGet :: "(int, 'd) cachedGet"
  assumes swpc: "\<forall>req. cachedGet req \<noteq> Rejected"
      and nasa: "\<forall>req. nasaGet req \<noteq> Rejected"
  shows "getAPOD cfg nasaGet date \<noteq> Rejected
       \<and> getMarsPhotos cfg nasaGet rover sol earthDate camera \<noteq> Rejected
       \<and> getNearEarthObjects cfg nasaGet startDate endDate \<noteq> Rejected
       \<and> getEarthImagery cfg nasaGet numStr lat lon date dim \<noteq> Rejected
       \<and> getDONKIEvents cfg nasaGet type startDate endDate \<noteq> Rejected
       \<and> getAuroraForecast cfg cachedGet now \<noteq> Rejected
       \<and> getSolarWind cfg cachedGet \<noteq> Rejected
       \<and> getGeomagneticActivity cfg cachedGet \<noteq> Rejected
       \<and> get3DayForecast cfg cachedGet \<noteq> Rejected
       \<and> getSolarFlares cfg nasaGet startDate endDate \<noteq> Rejected
       \<and> getCMEs cfg nasaGet startDate endDate \<noteq> Rejected
       \<and> getGeomagneticStorms cfg nasaGet startDate endDate \<noteq> Rejected
       \<and> getSEPEvents cfg nasaGet startDate endDate \<noteq> Rejected
       \<and> getSpaceWeatherSummary cfg cachedGet now_aurora now1 now2 \<noteq> Rejected"
proof -
  have au: "getAuroraForecast cfg cachedGet t \<noteq> Rejected" for t
    using swpc by (simp add: getAuroraForecast_def split: settled.splits)
  have sw: "getSolarWind cfg cachedGet \<noteq> Rejected"
    and ga: "getGeomagneticActivity cfg cachedGet \<noteq> Rejected"
    and fc: "get3DayForecast cfg cachedGet \<noteq> Rejected"
    using swpc by (simp_all add: getSolarWind_def getGeomagneticActivity_def get3DayForecast_def)
  have su: "getSpaceWeatherSummary cfg cachedGet now_aurora now1 now2 \<noteq> Rejected"
    using sw ga fc au [of now_aurora]
    by (simp add: getSpaceWeatherSummary_def split: settled.splits)
  have dk: "getDONKIEvents cfg nasaGet ty startDate endDate \<noteq> Rejected" for ty
    using nasa by (simp add: getDONKIEvents_def)
  have na: "getAPOD cfg nasaGet date \<noteq> Rejected"
    "getMarsPhotos cfg nasaGet rover sol earthDate camera \<noteq> Rejected"
    "getNearEarthObjects cfg nasaGet startDate endDate \<noteq> Rejected"
    "getEarthImagery cfg nasaGet numStr lat lon date dim \<noteq> Rejected"
    using nasa
    by (simp_all add: getAPOD_def getMarsPhotos_def getNearEarthObjects_def getEarthImagery_def)
  show ?thesis
    using au [of now] sw ga fc su dk na
    by (simp add: getSolarFlares_def getCMEs_def getGeomagneticStorms_def getSEPEvents_def)
qed

text \<open>
  A collaborator that answers the solar wind request with a failure envelope.
\<close>

theorem clients_never_reject_witness:
  "(\<forall>req. demo_get ''solar-wind'' req \<noteq> Rejected)
   \<and> getAPOD demo_config (demo_get ''solar-wind'') None \<noteq> Rejected
   \<and> getMarsPhotos demo_config (demo_get ''solar-wind'') ''curiosity'' None None None \<noteq> Rejected
   \<and> getSpaceWeatherSummary demo_config (demo_get ''solar-wind'') 1 2 3 \<noteq> Rejected"
proof -
  have h: "\<forall>req. demo_get ''solar-wind'' req \<noteq> Rejected"
    by (simp add: demo_get_def)
  from clients_never_reject [OF h h, of demo_config None "''curiosity''" None None None
      _ _ _ _ _ _ _ _ 1 2 3] h
  show ?thesis by simp
qed

section \<open>The ISS page: error state\<close>

text \<open>
  The only value that \<^verbatim>\<open>fetchData\<close> ever gives to \<^verbatim>\<open>setError\<close> is its message, so no
  sequence of setter calls made by poll cycles, in whatever order they interleave, brings
  the error state back to \<^verbatim>\<open>null\<close>.
\<close>

lemma fetchData_SetError: "SetError e \<in> set (fetchData p a) \<Longrightarrow> e = Some ''Failed to load ISS data''"
  by (auto simp: fetchData_def catch_block_def split: reply.splits if_splits option.splits)

lemma setState_keeps_error:
  "a \<noteq> SetError None \<Longrightarrow> errorState st \<noteq> None \<Longrightarrow> errorState (setState st a) \<noteq> None"
  by (cases a) auto

lemma setters_keep_error:
  "SetError None \<notin> set as \<Longrightarrow> errorState st \<noteq> None \<Longrightarrow>
     errorState (foldl setState st as) \<noteq> None"
proof (induction as arbitrary: st)
  case Nil
  then show ?case by simp
next
  case (Cons a as)
  from Cons.prems have "errorState (setState st a) \<noteq> None"
    by (intro setState_keeps_error) auto
  with Cons show ?case by simp
qed

lemma poll_keeps_error: "errorState st \<noteq> None \<Longrightarrow> errorState (poll st r) \<noteq> None"
  unfolding poll_def
  by (rule setters_keep_error) (use fetchData_SetError in blast)+

lemma polls_keep_error: "errorState st \<noteq> None \<Longrightarrow> errorState (polls st rs) \<noteq> None"
  unfolding polls_def
proof (induction rs arbitrary: st)
  case Nil
  then show ?case by simp
next
  case (Cons r rs)
  from Cons.prems have "errorState (poll st r) \<noteq> None" by (rule poll_keeps_error)
  then have "errorState (foldl poll (poll st r) rs) \<noteq> None" by (rule Cons.IH)
  then show ?case by simp
qed

text \<open>
  Claim C8. Once the error state of the ISS page is not \<^verbatim>\<open>null\<close>, it is not \<^verbatim>\<open>null\<close> after
  any further poll cycles, whether they fail or succeed; and a cycle that succeeds
  still stores the new position and the crew of the ISS, and leaves the error state as
  it was.
\<close>

theorem error_state_sticky:
  "(errorState st \<noteq> None \<longrightarrow> errorState (polls st rs) \<noteq> None)
   \<and> errorState (poll st (Json True p, Json True (Some ps))) = errorState st
   \<and> position (poll st (Json True p, Json True (Some ps))) = p
   \<and> astronauts (poll st (Json True p, Json True (Some ps))) =
       filter (\<lambda>a. craft a = ''ISS'') ps"
  by (simp add: polls_keep_error) (simp add: poll_def fetchData_def)

text \<open>
  The first cycle fails; the next succeeds and the one after it gets two failure
  envelopes.
\<close>

theorem error_state_sticky_witness:
  "errorState (poll (initial :: nat page) (Throws, Throws)) \<noteq> None
   \<and> errorState (polls (poll (initial :: nat page) (Throws, Throws))
        [(Json True (Some 7), Json True (Some iss_crew)), (Json False None, Json False None)])
       \<noteq> None
   \<and> position (polls (poll (initial :: nat page) (Throws, Throws))
        [(Json True (Some 7), Json True (Some iss_crew)), (Json False None, Json False None)])
       = Some 7"
proof -
  have h: "errorState (poll (initial :: nat page) (Throws, Throws)) \<noteq> None"
    by (simp add: poll_def fetchData_def catch_block_def initial_def)
  from error_state_sticky [of "poll (initial :: nat page) (Throws, Throws)"
      "[(Json True (Some 7), Json True (Some iss_crew)), (Json False None, Json False None)]"] h
  have "errorState (polls (poll (initial :: nat page) (Throws, Throws))
        [(Json True (Some 7), Json True (Some iss_crew)), (Json False None, Json False None)])
       \<noteq> None" by blast
  moreover have "position (polls (poll (initial :: nat page) (Throws, Throws))
        [(Json True (Some 7), Json True (Some iss_crew)), (Json False None, Json False None)])
       = Some 7"
    by (simp add: polls_def poll_def fetchData_def catch_block_def initial_def)
  ultimately show ?thesis using h by blast
qed




end
